theory Spec2Isabelle
  imports Main
begin

section \<open>Bytes and the string helpers of the Go standard library\<close>

text \<open>
  Go strings and byte slices are sequences of bytes; they are modelled as \<open>string\<close>
  (lists of 8-bit characters), so \<open>length\<close> is Go's \<open>len\<close>.
\<close>

definition CR :: char where "CR = CHR 0x0D"
definition LF :: char where "LF = CHR 0x0A"
definition CRLF :: string where "CRLF = [CR, LF]"

text \<open>\<open>strings.Split(s, sep)\<close> for a one-byte separator: every separator cuts, so the
  result has one element more than there are separators (and \<open>Split("", sep)\<close> is \<open>[""]\<close>).\<close>

fun Split :: "string \<Rightarrow> char \<Rightarrow> string list" where
  "Split [] sep = [[]]"
| "Split (c # cs) sep =
     (if c = sep then [] # Split cs sep
      else (case Split cs sep of
              [] \<Rightarrow> [[c]]
            | p # ps \<Rightarrow> (c # p) # ps))"

text \<open>\<open>strings.Trim(s, cutset)\<close>: drops the leading and trailing bytes that are in the cutset.\<close>

definition Trim :: "string \<Rightarrow> string \<Rightarrow> string" where
  "Trim s cutset =
     rev (dropWhile (\<lambda>c. c \<in> set cutset) (rev (dropWhile (\<lambda>c. c \<in> set cutset) s)))"

text \<open>\<open>strings.Join(elems, sep)\<close>.\<close>

fun Join :: "string list \<Rightarrow> string \<Rightarrow> string" where
  "Join [] sep = []"
| "Join [x] sep = x"
| "Join (x # y # ys) sep = x @ sep @ Join (y # ys) sep"

text \<open>The verb \<open>%d\<close> of \<open>fmt.Sprintf\<close> on a non-negative integer: its decimal digits.\<close>

definition digit :: "nat \<Rightarrow> char" where
  "digit d = char_of (48 + d)"

fun decimal :: "nat \<Rightarrow> string" where
  "decimal n = (if n < 10 then [digit n] else decimal (n div 10) @ [digit (n mod 10)])"

declare decimal.simps [simp del]

subsection \<open>\<open>strconv.Atoi\<close>\<close>

text \<open>
  \<open>Atoi(s)\<close> is \<open>ParseInt(s, 10, 0)\<close> on a 64-bit \<open>int\<close> (its fast path for short strings
  computes the same results). \<open>ParseUint\<close> reads decimal digits left to right: a byte that is
  not a digit is a syntax error with value 0; an accumulator that leaves 64 bits is a range
  error with the largest value, reported before the remaining bytes are looked at.
\<close>

datatype numError = ErrSyntax | ErrRange

definition isDigit :: "char \<Rightarrow> bool" where
  "isDigit c = (48 \<le> (of_char c :: nat) \<and> (of_char c :: nat) \<le> 57)"

definition maxUint64 :: int where "maxUint64 = 2 ^ 64 - 1"

fun parseUintLoop :: "int \<Rightarrow> string \<Rightarrow> int \<times> numError option" where
  "parseUintLoop n [] = (n, None)"
| "parseUintLoop n (c # cs) =
     (if \<not> isDigit c then (0, Some ErrSyntax)
      else if n \<ge> maxUint64 div 10 + 1 then (maxUint64, Some ErrRange)
      else (let n1 = n * 10 + (of_char c - 48)
            in if n1 > maxUint64 then (maxUint64, Some ErrRange)
               else parseUintLoop n1 cs))"

definition ParseUint :: "string \<Rightarrow> int \<times> numError option" where
  "ParseUint s = (if s = [] then (0, Some ErrSyntax) else parseUintLoop 0 s)"

definition ParseInt :: "string \<Rightarrow> int \<times> numError option" where
  "ParseInt s =
     (if s = [] then (0, Some ErrSyntax)
      else
        (let neg = (hd s = CHR ''-'');
             s1 = (if hd s = CHR ''+'' \<or> hd s = CHR ''-'' then tl s else s);
             (un, err) = ParseUint s1
         in if err = Some ErrSyntax then (0, Some ErrSyntax)
            else if \<not> neg \<and> un \<ge> 2 ^ 63 then (2 ^ 63 - 1, Some ErrRange)
            else if neg \<and> un > 2 ^ 63 then (- (2 ^ 63), Some ErrRange)
            else (if neg then - un else un, None)))"

definition Atoi :: "string \<Rightarrow> int \<times> numError option" where
  "Atoi s = ParseInt s"

section \<open>The request and the header parser\<close>

text \<open>The struct \<open>request\<close>; its field \<open>method\<close> is written \<open>method'\<close> here.\<close>

record request =
  method' :: string
  httpVersion :: string
  host :: string
  userAgent :: string
  path :: string
  pathParts :: "string list"
  contentLength :: int

text \<open>A Go run-time panic (index out of range, negative slice length) ends the handler;
  it is a value of the model.\<close>

datatype panic = IndexOutOfRange | MakesliceLenOutOfRange

text \<open>Indexing a slice: Go panics outside the slice.\<close>

definition index :: "'a list \<Rightarrow> nat \<Rightarrow> panic + 'a" where
  "index xs i = (if i < length xs then Inr (xs ! i) else Inl IndexOutOfRange)"

text \<open>
  \<open>parseHeader\<close> splits the line at every colon, switches on the trimmed first part and,
  for the three known keys, reads \<open>parts[1]\<close>. The error of \<open>Atoi\<close> is dropped and the value
  it returned is stored.
\<close>

definition parseHeader :: "string \<Rightarrow> request \<Rightarrow> panic + request" where
  "parseHeader line req =
     (let parts = Split line (CHR '':'');
          key = Trim (parts ! 0) [LF, CR, CHR '' '']
      in if key = ''Host'' then
           (case index parts 1 of
              Inl p \<Rightarrow> Inl p
            | Inr v \<Rightarrow> Inr (req\<lparr>host := Trim v [CR, LF, CHR '' '']\<rparr>))
         else if key = ''User-Agent'' then
           (case index parts 1 of
              Inl p \<Rightarrow> Inl p
            | Inr v \<Rightarrow> Inr (req\<lparr>userAgent := Trim v [CR, LF, CHR '' '']\<rparr>))
         else if key = ''Content-Length'' then
           (case index parts 1 of
              Inl p \<Rightarrow> Inl p
            | Inr v \<Rightarrow> Inr (req\<lparr>contentLength := fst (Atoi (Trim v [CR, LF, CHR '' '']))\<rparr>))
         else Inr req)"

section \<open>The response builder\<close>

definition serverVersion :: string where "serverVersion = ''0.1''"

text \<open>The server name of the source holds non-ASCII characters; these are its UTF-8 bytes.\<close>

definition serverName :: string where
  "serverName = ''naive-server'' @ [CHR 0xC2, CHR 0xAF, CHR 0x5C] @ ''_(''
                @ [CHR 0xE3, CHR 0x83, CHR 0x84] @ '')_/'' @ [CHR 0xC2, CHR 0xAF]"

definition statusOK :: int where "statusOK = 200"
definition statusCreated :: int where "statusCreated = 201"
definition statusInternalServerError :: int where "statusInternalServerError = 500"
definition statusNotFound :: int where "statusNotFound = 404"
definition statusBadRequest :: int where "statusBadRequest = 400"
definition statusMethodNotAllowed :: int where "statusMethodNotAllowed = 405"

definition methodGet :: string where "methodGet = ''GET''"
definition methodPost :: string where "methodPost = ''POST''"

definition textStatusOK :: string where "textStatusOK = ''OK''"
definition textStatusCreated :: string where "textStatusCreated = ''Created''"
definition textStatusInternal :: string where "textStatusInternal = ''Internal Server Error''"
definition textStatusNotFound :: string where "textStatusNotFound = ''Not Found''"
definition textStatusBadRequest :: string where "textStatusBadRequest = ''Bad Request''"
definition textStatusMethodNotAllowed :: string where
  "textStatusMethodNotAllowed = ''Method Not Allowed''"

definition contentTypeTextPlain :: string where "contentTypeTextPlain = ''text/plain''"
definition contentTypeOctetStream :: string where
  "contentTypeOctetStream = ''application/octet-stream''"

record content =
  contentType :: string
  body :: string

text \<open>The verb \<open>%d\<close> on a Go \<open>int\<close>.\<close>

definition fmtInt :: "int \<Rightarrow> string" where
  "fmtInt i = (if i < 0 then CHR ''-'' # decimal (nat (- i)) else decimal (nat i))"

text \<open>
  \<open>buildResponse\<close>. The formatted reading of the clock is the parameter \<open>date\<close>; a nil
  \<open>*content\<close> is \<open>None\<close>. The switch on the status has four cases and no default.
\<close>

definition buildResponse :: "string \<Rightarrow> int \<Rightarrow> content option \<Rightarrow> string" where
  "buildResponse date respType c =
     (if respType = statusOK then
        ''HTTP/1.1 '' @ fmtInt statusOK @ '' '' @ textStatusOK @ CRLF
      else if respType = statusCreated then
        ''HTTP/1.1 '' @ fmtInt statusCreated @ '' '' @ textStatusCreated @ CRLF
      else if respType = statusNotFound then
        ''HTTP/1.1 '' @ fmtInt statusNotFound @ '' '' @ textStatusNotFound @ CRLF
      else if respType = statusMethodNotAllowed then
        ''HTTP/1.1 '' @ fmtInt statusMethodNotAllowed @ '' '' @ textStatusMethodNotAllowed @ CRLF
      else [])
     @ ''Date: '' @ date @ CRLF
     @ ''Server: '' @ serverName @ '' v'' @ serverVersion @ CRLF
     @ (case c of
          None \<Rightarrow> []
        | Some ct \<Rightarrow>
            ''Content-Type: '' @ contentType ct @ CRLF
            @ ''Content-Length: '' @ fmtInt (int (length (body ct))) @ CRLF)
     @ CRLF
     @ (case c of None \<Rightarrow> [] | Some ct \<Rightarrow> body ct)"

section \<open>The connection: a buffered reader over a byte stream\<close>

text \<open>
  The input side of the connection delivers its bytes in segments: each \<open>Read\<close> on the
  socket returns the next bytes that have arrived, at most as many as the caller's slice
  holds, and once every segment is delivered it returns the error \<open>closing\<close> (\<open>io.EOF\<close>
  when the peer has closed). \<open>bufio.Reader\<close> keeps the bytes it has read and not yet handed
  out in \<open>buffered\<close>; its buffer holds \<open>defaultBufSize\<close> bytes.
\<close>

datatype ioError = EOF | ConnError

record reader =
  buffered :: string
  segments :: "string list"
  closing :: ioError

definition defaultBufSize :: nat where "defaultBufSize = 4096"

text \<open>One \<open>Read\<close> on the socket into a slice of \<open>k\<close> bytes; no bytes means the stream has
  ended.\<close>

fun connRead :: "nat \<Rightarrow> string list \<Rightarrow> string \<times> string list" where
  "connRead k [] = ([], [])"
| "connRead k (c # cs) =
     (if c = [] then connRead k cs
      else if length c \<le> k then (c, cs)
      else (take k c, drop k c # cs))"

definition NewReader :: "string list \<Rightarrow> ioError \<Rightarrow> reader" where
  "NewReader segs e = \<lparr>buffered = [], segments = segs, closing = e\<rparr>"

text \<open>
  \<open>ReadBytes('\n')\<close>: the bytes up to and including the first line feed. While the buffer
  holds none, a full buffer is taken as a fragment and emptied, otherwise the buffer is
  filled by one socket read; an error of that read ends the call with the bytes read so far.
\<close>

function ReadBytes :: "reader \<Rightarrow> string \<times> ioError option \<times> reader" where
  "ReadBytes b =
     (if LF \<in> set (buffered b) then
        (takeWhile (\<lambda>c. c \<noteq> LF) (buffered b) @ [LF], None,
         b\<lparr>buffered := tl (dropWhile (\<lambda>c. c \<noteq> LF) (buffered b))\<rparr>)
      else if length (buffered b) \<ge> defaultBufSize then
        (case ReadBytes (b\<lparr>buffered := []\<rparr>) of
           (line, err, b') \<Rightarrow> (buffered b @ line, err, b'))
      else
        (case connRead (defaultBufSize - length (buffered b)) (segments b) of
           ([], rest) \<Rightarrow> (buffered b, Some (closing b), b\<lparr>buffered := [], segments := rest\<rparr>)
         | (d # ds, rest) \<Rightarrow> ReadBytes (b\<lparr>buffered := buffered b @ d # ds, segments := rest\<rparr>)))"
  by pat_completeness auto

lemma connRead_concat: "connRead k segs = (d, rest) \<Longrightarrow> concat segs = d @ concat rest"
  by (induction segs) (auto split: if_splits)

termination ReadBytes
  apply (relation "measures [\<lambda>b. length (concat (segments b)), \<lambda>b. length (buffered b)]")
    apply simp
   apply (auto simp add: defaultBufSize_def dest!: connRead_concat [OF sym])
  done

declare ReadBytes.simps [simp del]

text \<open>
  \<open>Read(p)\<close> with \<open>len(p) = n\<close>: the bytes come from the buffer when it holds any, otherwise
  from a single socket read (straight into \<open>p\<close> when \<open>p\<close> is at least as large as the
  buffer). Fewer than \<open>n\<close> bytes are returned without an error; an error is returned only
  with no bytes.
\<close>

definition Read :: "nat \<Rightarrow> reader \<Rightarrow> string \<times> ioError option \<times> reader" where
  "Read n b =
     (if n = 0 then ([], None, b)
      else if buffered b \<noteq> [] then
        (take n (buffered b), None, b\<lparr>buffered := drop n (buffered b)\<rparr>)
      else if n \<ge> defaultBufSize then
        (case connRead n (segments b) of
           ([], rest) \<Rightarrow> ([], Some (closing b), b\<lparr>segments := rest\<rparr>)
         | (d # ds, rest) \<Rightarrow> (d # ds, None, b\<lparr>segments := rest\<rparr>))
      else
        (case connRead defaultBufSize (segments b) of
           ([], rest) \<Rightarrow> ([], Some (closing b), b\<lparr>segments := rest\<rparr>)
         | (d # ds, rest) \<Rightarrow>
             (take n (d # ds), None, b\<lparr>buffered := drop n (d # ds), segments := rest\<rparr>)))"

section \<open>Scanning the request line\<close>

text \<open>
  \<open>fmt.Sscanf(line, "%s %s %s\r\n", ...)\<close> on the bytes of an ASCII line (Go decodes the
  line as UTF-8 and also knows the Unicode spaces). A verb \<open>%s\<close> skips spaces, fails on a
  line feed or at the end of the input, and takes the bytes up to the next space. A space
  of the format needs a space of the input that is not a line feed, or the end of the
  input. The final \<open>\r\n\<close> of the format matches spaces followed by a line feed or by the
  end of the input. Every failure makes \<open>Sscanf\<close> return an error.
\<close>

definition isSpace :: "char \<Rightarrow> bool" where
  "isSpace c = (c \<in> set [CHR 0x09, CHR 0x0A, CHR 0x0B, CHR 0x0C, CHR 0x0D, CHR 0x20])"

fun SkipSpace :: "string \<Rightarrow> string option" where
  "SkipSpace [] = Some []"
| "SkipSpace (c # cs) =
     (if c = LF then None
      else if isSpace c then SkipSpace cs
      else Some (c # cs))"

definition convertString :: "string \<Rightarrow> (string \<times> string) option" where
  "convertString s =
     (case SkipSpace s of
        None \<Rightarrow> None
      | Some [] \<Rightarrow> None
      | Some (c # cs) \<Rightarrow>
          Some (takeWhile (\<lambda>c. \<not> isSpace c) (c # cs), dropWhile (\<lambda>c. \<not> isSpace c) (c # cs)))"

definition advanceSpace :: "string \<Rightarrow> string option" where
  "advanceSpace s =
     (case s of
        [] \<Rightarrow> Some []
      | c # cs \<Rightarrow>
          if \<not> isSpace c then None
          else if c = LF then None
          else Some (dropWhile (\<lambda>c. isSpace c \<and> c \<noteq> LF) (c # cs)))"

definition advanceNewline :: "string \<Rightarrow> bool" where
  "advanceNewline s =
     (case dropWhile (\<lambda>c. isSpace c \<and> c \<noteq> LF) s of
        [] \<Rightarrow> True
      | c # cs \<Rightarrow> c = LF)"

definition Sscanf :: "string \<Rightarrow> (string \<times> string \<times> string) option" where
  "Sscanf s =
     (case convertString s of
        None \<Rightarrow> None
      | Some (a1, s1) \<Rightarrow>
     (case advanceSpace s1 of
        None \<Rightarrow> None
      | Some s2 \<Rightarrow>
     (case convertString s2 of
        None \<Rightarrow> None
      | Some (a2, s3) \<Rightarrow>
     (case advanceSpace s3 of
        None \<Rightarrow> None
      | Some s4 \<Rightarrow>
     (case convertString s4 of
        None \<Rightarrow> None
      | Some (a3, s5) \<Rightarrow>
          if advanceNewline s5 then Some (a1, a2, a3) else None)))))"

section \<open>The connection handler\<close>

text \<open>How \<open>handleConn\<close> ends: it returns nil, returns one of its six errors, or panics.\<close>

datatype handlerError =
    ErrReadingRequestLine
  | ErrReadingRequestString
  | ErrReadingHeaderLine
  | ErrParsingRequest
  | ErrWriting
  | ErrReading

datatype outcome = ReturnNil | ReturnError handlerError | Panic panic

subsection \<open>The header loop\<close>

lemma ReadBytes_content:
  "ReadBytes b = (l, e, b') \<Longrightarrow>
     buffered b @ concat (segments b) = l @ buffered b' @ concat (segments b')"
proof (induction b arbitrary: l e b' rule: ReadBytes.induct)
  case (1 b)
  show ?case
  proof (cases "LF \<in> set (buffered b)")
    case True
    then have nonempty: "dropWhile (\<lambda>c. c \<noteq> LF) (buffered b) \<noteq> []"
      by simp
    then have "hd (dropWhile (\<lambda>c. c \<noteq> LF) (buffered b)) = LF"
      using hd_dropWhile [of "\<lambda>c. c \<noteq> LF" "buffered b"] by simp
    with nonempty have "dropWhile (\<lambda>c. c \<noteq> LF) (buffered b)
        = LF # tl (dropWhile (\<lambda>c. c \<noteq> LF) (buffered b))"
      by (cases "dropWhile (\<lambda>c. c \<noteq> LF) (buffered b)") auto
    then have "buffered b = takeWhile (\<lambda>c. c \<noteq> LF) (buffered b)
        @ LF # tl (dropWhile (\<lambda>c. c \<noteq> LF) (buffered b))"
      using takeWhile_dropWhile_id [of "\<lambda>c. c \<noteq> LF" "buffered b"] by simp
    moreover from True "1.prems"
    have "l = takeWhile (\<lambda>c. c \<noteq> LF) (buffered b) @ [LF]"
      and "b' = b\<lparr>buffered := tl (dropWhile (\<lambda>c. c \<noteq> LF) (buffered b))\<rparr>"
      by (simp_all add: ReadBytes.simps [of b])
    ultimately show ?thesis by simp
  next
    case noLF: False
    show ?thesis
    proof (cases "defaultBufSize \<le> length (buffered b)")
      case True
      obtain l0 e0 b0 where r: "ReadBytes (b\<lparr>buffered := []\<rparr>) = (l0, e0, b0)"
        by (metis prod_cases3)
      with noLF True "1.prems" have "l = buffered b @ l0" and "b' = b0"
        by (simp_all add: ReadBytes.simps [of b])
      moreover from "1.IH"(1) [OF noLF True r]
      have "concat (segments b) = l0 @ buffered b0 @ concat (segments b0)"
        by simp
      ultimately show ?thesis by simp
    next
      case False
      obtain d rest where c: "connRead (defaultBufSize - length (buffered b)) (segments b) = (d, rest)"
        by (metis surj_pair)
      then have cc: "concat (segments b) = d @ concat rest"
        by (rule connRead_concat)
      show ?thesis
      proof (cases d)
        case Nil
        with noLF False c "1.prems" have "l = buffered b"
          and "b' = b\<lparr>buffered := [], segments := rest\<rparr>"
          by (simp_all add: ReadBytes.simps [of b])
        with cc Nil show ?thesis by simp
      next
        case (Cons x xs)
        with noLF False c "1.prems"
        have r: "ReadBytes (b\<lparr>buffered := buffered b @ x # xs, segments := rest\<rparr>) = (l, e, b')"
          by (simp add: ReadBytes.simps [of b])
        from "1.IH"(2) [OF noLF False c [symmetric] _ r] Cons
        have "(buffered b @ x # xs) @ concat rest = l @ buffered b' @ concat (segments b')"
          by simp
        with cc Cons show ?thesis by simp
      qed
    qed
  qed
qed

lemma ReadBytes_line:
  "ReadBytes b = (l, None, b') \<Longrightarrow> \<exists>p. l = p @ [LF] \<and> LF \<notin> set p"
proof (induction b arbitrary: l b' rule: ReadBytes.induct)
  case (1 b)
  show ?case
  proof (cases "LF \<in> set (buffered b)")
    case True
    with "1.prems" have "l = takeWhile (\<lambda>c. c \<noteq> LF) (buffered b) @ [LF]"
      by (simp add: ReadBytes.simps [of b])
    moreover have "LF \<notin> set (takeWhile (\<lambda>c. c \<noteq> LF) (buffered b))"
      by (auto dest: set_takeWhileD)
    ultimately show ?thesis by blast
  next
    case noLF: False
    show ?thesis
    proof (cases "defaultBufSize \<le> length (buffered b)")
      case True
      obtain l0 e0 b0 where r: "ReadBytes (b\<lparr>buffered := []\<rparr>) = (l0, e0, b0)"
        by (metis prod_cases3)
      with noLF True "1.prems" have l: "l = buffered b @ l0" and "e0 = None"
        by (simp_all add: ReadBytes.simps [of b])
      with r "1.IH"(1) [OF noLF True, of l0 b0] obtain p where "l0 = p @ [LF]" "LF \<notin> set p"
        by auto
      with l noLF have "l = (buffered b @ p) @ [LF] \<and> LF \<notin> set (buffered b @ p)"
        by simp
      then show ?thesis by blast
    next
      case False
      obtain d rest where c: "connRead (defaultBufSize - length (buffered b)) (segments b) = (d, rest)"
        by (metis surj_pair)
      show ?thesis
      proof (cases d)
        case Nil
        with noLF False c "1.prems" show ?thesis
          by (simp add: ReadBytes.simps [of b])
      next
        case (Cons x xs)
        with noLF False c "1.prems"
        have r: "ReadBytes (b\<lparr>buffered := buffered b @ x # xs, segments := rest\<rparr>) = (l, None, b')"
          by (simp add: ReadBytes.simps [of b])
        from "1.IH"(2) [OF noLF False c [symmetric] _ r] Cons show ?thesis
          by simp
      qed
    qed
  qed
qed

lemma ReadBytes_shrinks:
  assumes "ReadBytes b = (l, None, b')"
  shows "length (buffered b') + length (concat (segments b'))
           < length (buffered b) + length (concat (segments b))"
proof -
  from ReadBytes_line [OF assms] have "l \<noteq> []"
    by auto
  moreover from ReadBytes_content [OF assms]
  have "length (buffered b @ concat (segments b))
          = length (l @ buffered b' @ concat (segments b'))"
    by simp
  ultimately show ?thesis by simp
qed

text \<open>
  The loop of \<open>handleConn\<close> that reads the header lines: a read error ends the handler, a
  line of two bytes ends the loop, every other line goes to \<open>parseHeader\<close>.
\<close>

function parseHeaders :: "reader \<Rightarrow> request \<Rightarrow> outcome + request \<times> reader" where
  "parseHeaders b req =
     (case ReadBytes b of
        (headerStr, Some e, b') \<Rightarrow> Inl (ReturnError ErrReadingHeaderLine)
      | (headerStr, None, b') \<Rightarrow>
          if length headerStr = 2 then Inr (req, b')
          else (case parseHeader headerStr req of
                  Inl p \<Rightarrow> Inl (Panic p)
                | Inr req' \<Rightarrow> parseHeaders b' req'))"
  by pat_completeness auto

termination parseHeaders
  apply (relation "measure (\<lambda>(b, req). length (buffered b) + length (concat (segments b)))")
   apply simp
  apply (auto dest!: ReadBytes_shrinks [OF sym])
  done

declare parseHeaders.simps [simp del]

subsection \<open>Files, options, and what the handler leaves behind\<close>

text \<open>
  The directory served is a map from path names to file contents. \<open>os.ReadFile\<close> fails on
  a path that has no file; \<open>os.WriteFile\<close> fails on the paths in \<open>unwritable\<close> (a directory,
  a missing parent, a read-only file) and otherwise replaces the file's contents.
\<close>

record fileSystem =
  files :: "string \<rightharpoonup> string"
  unwritable :: "string set"

definition ReadFile :: "fileSystem \<Rightarrow> string \<Rightarrow> string option" where
  "ReadFile fs name = files fs name"

definition WriteFile :: "fileSystem \<Rightarrow> string \<Rightarrow> string \<Rightarrow> fileSystem option" where
  "WriteFile fs name data =
     (if name \<in> unwritable fs then None else Some (fs\<lparr>files := (files fs)(name \<mapsto> data)\<rparr>))"

record options =
  directory :: string
  host_opt :: string

text \<open>
  The result of one run of the handler: the byte slices passed to \<open>conn.Write\<close>, in order,
  the files afterwards, and how the handler ended.
\<close>

record result =
  written :: "string list"
  fsys :: fileSystem
  outcome :: outcome

text \<open>\<open>make([]byte, n)\<close> panics for a negative length and for one beyond the allocation
  limit of the run-time system (\<open>2^48\<close> bytes on 64-bit Linux).\<close>

definition maxAlloc :: int where "maxAlloc = 2 ^ 48"

subsection \<open>Routing\<close>

text \<open>
  The switch of the GET branch (lines 188 to 216): the responses it writes and, where it
  leaves the handler inside the switch (the return after a failed file read, a panic on
  \<open>pathParts[2]\<close>), the outcome. The clock reading of the \<open>k\<close>-th response built is
  \<open>now k\<close>.
\<close>

definition getSwitch ::
    "(nat \<Rightarrow> string) \<Rightarrow> options \<Rightarrow> fileSystem \<Rightarrow> request \<Rightarrow> string list \<times> outcome option" where
  "getSwitch now opts fs req =
     (let key = pathParts req ! 1
      in if key = [] then ([buildResponse (now 0) statusOK None], None)
         else if key = ''echo'' then
           ([buildResponse (now 0) statusOK
               (Some \<lparr>contentType = ''text/plain'',
                      body = Join (drop 2 (pathParts req)) ''/''\<rparr>)], None)
         else if key = ''user-agent'' then
           ([buildResponse (now 0) statusOK
               (Some \<lparr>contentType = contentTypeTextPlain, body = userAgent req\<rparr>)], None)
         else if key = ''files'' then
           (case index (pathParts req) 2 of
              Inl p \<Rightarrow> ([], Some (Panic p))
            | Inr name \<Rightarrow>
                (case ReadFile fs (directory opts @ name) of
                   None \<Rightarrow>
                     ([buildResponse (now 0) statusNotFound None], Some (ReturnError ErrReading))
                 | Some data \<Rightarrow>
                     ([buildResponse (now 0) statusOK
                         (Some \<lparr>contentType = contentTypeOctetStream, body = data\<rparr>)], None)))
         else ([buildResponse (now 0) statusNotFound None], None))"

text \<open>
  The POST branch for the key \<open>files\<close> (lines 165 to 178): a buffer of \<open>contentLength\<close> zero
  bytes, one \<open>Read\<close> into it, then the whole buffer is written to the file.
\<close>

definition postFiles ::
    "(nat \<Rightarrow> string) \<Rightarrow> options \<Rightarrow> fileSystem \<Rightarrow> reader \<Rightarrow> request \<Rightarrow> result" where
  "postFiles now opts fs b req =
     (if contentLength req < 0 \<or> contentLength req > maxAlloc then
        \<lparr>written = [], fsys = fs, outcome = Panic MakesliceLenOutOfRange\<rparr>
      else
        (case Read (nat (contentLength req)) b of
           (d, Some e, b') \<Rightarrow>
             \<lparr>written = [buildResponse (now 0) statusInternalServerError None], fsys = fs,
              outcome = ReturnError ErrParsingRequest\<rparr>
         | (d, None, b') \<Rightarrow>
             (let buf = d @ replicate (nat (contentLength req) - length d) (CHR 0x00)
              in case index (pathParts req) 2 of
                   Inl p \<Rightarrow> \<lparr>written = [], fsys = fs, outcome = Panic p\<rparr>
                 | Inr name \<Rightarrow>
                     (case WriteFile fs (directory opts @ name) buf of
                        None \<Rightarrow>
                          \<lparr>written = [buildResponse (now 0) statusInternalServerError None],
                           fsys = fs, outcome = ReturnError ErrWriting\<rparr>
                      | Some fs' \<Rightarrow>
                          \<lparr>written = [buildResponse (now 0) statusCreated None],
                           fsys = fs', outcome = ReturnNil\<rparr>))))"

text \<open>
  The handler from the check of the number of path parts to its end (lines 156 to 221).
  After the GET switch the handler does not return: it goes on to the write of the
  405 response that ends the function.
\<close>

definition respond ::
    "(nat \<Rightarrow> string) \<Rightarrow> options \<Rightarrow> fileSystem \<Rightarrow> reader \<Rightarrow> request \<Rightarrow> result" where
  "respond now opts fs b req =
     (if length (pathParts req) < 2 then
        \<lparr>written = [buildResponse (now 0) statusBadRequest None], fsys = fs,
         outcome = ReturnNil\<rparr>
      else if method' req = methodPost then
        (if pathParts req ! 1 = ''files'' then postFiles now opts fs b req
         else \<lparr>written = [buildResponse (now 0) statusNotFound None], fsys = fs,
               outcome = ReturnNil\<rparr>)
      else
        (case (if method' req = methodGet then getSwitch now opts fs req else ([], None)) of
           (ws, Some oc) \<Rightarrow> \<lparr>written = ws, fsys = fs, outcome = oc\<rparr>
         | (ws, None) \<Rightarrow>
             \<lparr>written = ws @ [buildResponse (now (length ws)) statusMethodNotAllowed None],
              fsys = fs, outcome = ReturnNil\<rparr>))"

text \<open>
  \<open>handleConn\<close>: the connection is the list of segments its socket delivers and the error
  that follows them.
\<close>

definition handleConn ::
    "(nat \<Rightarrow> string) \<Rightarrow> options \<Rightarrow> fileSystem \<Rightarrow> string list \<times> ioError \<Rightarrow> result" where
  "handleConn now opts fs conn =
     (let reqReader = NewReader (fst conn) (snd conn)
      in case ReadBytes reqReader of
           (reqStr, err, b1) \<Rightarrow>
             if err \<noteq> None \<and> err \<noteq> Some EOF then
               \<lparr>written = [], fsys = fs, outcome = ReturnError ErrReadingRequestLine\<rparr>
             else
               (case Sscanf reqStr of
                  None \<Rightarrow>
                    \<lparr>written = [], fsys = fs, outcome = ReturnError ErrReadingRequestString\<rparr>
                | Some (m, p, v) \<Rightarrow>
                    (let req = \<lparr>method' = m, httpVersion = v, host = [], userAgent = [],
                                path = p,
                                pathParts = Split (Trim p [CR, LF, CHR '' '']) (CHR ''/''),
                                contentLength = 0\<rparr>
                     in case parseHeaders b1 req of
                          Inl oc \<Rightarrow> \<lparr>written = [], fsys = fs, outcome = oc\<rparr>
                        | Inr (req', b2) \<Rightarrow> respond now opts fs b2 req')))"

subsection \<open>Values used to run the handler\<close>

text \<open>The zero value of \<open>request\<close> (\<open>var req request\<close>), the defaults of the two flags of
  \<open>main\<close>, and a directory without files.\<close>

definition zeroRequest :: request where
  "zeroRequest = \<lparr>method' = [], httpVersion = [], host = [], userAgent = [], path = [],
                   pathParts = [], contentLength = 0\<rparr>"

definition defaultOptions :: options where
  "defaultOptions = \<lparr>directory = ''./'', host_opt = ''0.0.0.0:4221''\<rparr>"

definition noFiles :: fileSystem where
  "noFiles = \<lparr>files = Map.empty, unwritable = {}\<rparr>"

text \<open>A line as \<open>ReadBytes\<close> returns it without an error: it ends with its only line feed.\<close>

definition isLine :: "string \<Rightarrow> bool" where
  "isLine l = (l \<noteq> [] \<and> last l = LF \<and> LF \<notin> set (butlast l))"

text \<open>\<open>parseHeader\<close> applied to a list of lines in order, up to the first panic.\<close>

fun parseHeaderLines :: "string list \<Rightarrow> request \<Rightarrow> panic + request" where
  "parseHeaderLines [] req = Inr req"
| "parseHeaderLines (l # ls) req =
     (case parseHeader l req of
        Inl p \<Rightarrow> Inl p
      | Inr req' \<Rightarrow> parseHeaderLines ls req')"

section \<open>Properties\<close>

lemmas run_handler =
  handleConn_def NewReader_def ReadBytes.simps defaultBufSize_def Sscanf_def
  convertString_def advanceSpace_def advanceNewline_def isSpace_def Trim_def
  parseHeaders.simps parseHeader_def index_def respond_def getSwitch_def postFiles_def
  methodGet_def methodPost_def CRLF_def CR_def LF_def Atoi_def ParseInt_def ParseUint_def
  maxUint64_def isDigit_def Read_def ReadFile_def WriteFile_def maxAlloc_def
  zeroRequest_def defaultOptions_def noFiles_def

text \<open>
  C1 (one response per request). The request \<open>GET /\<close> reaches the router and is answered
  by two writes to the connection: the 200 response of its route and then the 405
  response at the end of the handler, because the GET branch does not return after its
  switch.
\<close>

theorem get_root_writes_two_responses:
  "written (handleConn now opts fs ([''GET / HTTP/1.1'' @ CRLF @ CRLF], EOF))
     = [buildResponse (now 0) statusOK None,
        buildResponse (now 1) statusMethodNotAllowed None]"
  by (simp add: run_handler)

text \<open>
  C2 (format of the response). For the status codes 400 and 500 the switch of
  \<open>buildResponse\<close> has no case: the output starts with the Date header and has no status
  line.
\<close>

theorem buildResponse_400_500_no_status_line:
  "buildResponse date statusBadRequest None
     = ''Date: '' @ date @ CRLF @ ''Server: '' @ serverName @ '' v'' @ serverVersion @ CRLF @ CRLF
   \<and> buildResponse date statusInternalServerError None
     = ''Date: '' @ date @ CRLF @ ''Server: '' @ serverName @ '' v'' @ serverVersion @ CRLF @ CRLF"
  by (simp add: buildResponse_def statusBadRequest_def statusInternalServerError_def
      statusOK_def statusCreated_def statusNotFound_def statusMethodNotAllowed_def)

text \<open>
  C3 (no out-of-range path segment). The requests \<open>GET /files\<close> and \<open>POST /files\<close> have the
  two path parts \<open>""\<close> and \<open>"files"\<close>; the handler indexes \<open>pathParts[2]\<close> without a check
  and panics, having written nothing.
\<close>

theorem files_route_short_path_panics:
  "handleConn now opts fs ([''GET /files HTTP/1.1'' @ CRLF @ CRLF], EOF)
     = \<lparr>written = [], fsys = fs, outcome = Panic IndexOutOfRange\<rparr>
   \<and> handleConn now opts fs ([''POST /files HTTP/1.1'' @ CRLF @ CRLF], EOF)
     = \<lparr>written = [], fsys = fs, outcome = Panic IndexOutOfRange\<rparr>"
  by (simp add: run_handler)

text \<open>
  C4 (POST reads exactly \<open>contentLength\<close> bytes, a short read is a 500). A POST declares five
  bytes and the stream ends after two: the single \<open>Read\<close> returns the two bytes without
  an error, the handler writes the five-byte buffer (the two bytes and three zero bytes)
  to the file and answers 201.
\<close>

theorem post_short_body_is_created:
  "handleConn now defaultOptions noFiles
     ([''POST /files/a HTTP/1.1'' @ CRLF @ ''Content-Length: 5'' @ CRLF @ CRLF @ ''hi''], EOF)
     = \<lparr>written = [buildResponse (now 0) statusCreated None],
        fsys = \<lparr>files = [''./a'' \<mapsto> ''hi'' @ replicate 3 (CHR 0x00)], unwritable = {}\<rparr>,
        outcome = ReturnNil\<rparr>"
  by (simp add: run_handler)

subsection \<open>What \<open>Atoi\<close> returns with an error\<close>





text \<open>
  C6 (the value is everything after the first colon). \<open>parseHeader\<close> splits the line at
  every colon and stores \<open>parts[1]\<close>: of \<open>Host: localhost:4221\<close> it keeps \<open>localhost\<close>.
\<close>

theorem host_value_cut_at_second_colon:
  "parseHeader (''Host: localhost:4221'' @ CRLF) zeroRequest
     = Inr (zeroRequest\<lparr>host := ''localhost''\<rparr>)"
  by (simp add: run_handler)



text \<open>
  The same route run from the bytes of the connection: the echo response is followed by
  the 405 response that every GET route appends (see C1).
\<close>

lemma get_echo_from_connection:
  "written (handleConn now opts fs ([''GET /echo/foo/bar HTTP/1.1'' @ CRLF @ CRLF], EOF))
     = [buildResponse (now 0) statusOK
          (Some \<lparr>contentType = ''text/plain'', body = ''foo/bar''\<rparr>),
        buildResponse (now 1) statusMethodNotAllowed None]"
  by (simp add: run_handler)

text \<open>
  C8 (a file written by POST is read back by GET). The body \<open>hello\<close> arrives in a second
  segment after its first two bytes: the POST stores \<open>he\<close> and three zero bytes and
  answers 201, and the GET that follows returns those five bytes.
\<close>

theorem post_then_get_returns_other_bytes:
  "handleConn now defaultOptions noFiles
     ([''POST /files/a HTTP/1.1'' @ CRLF @ ''Content-Length: 5'' @ CRLF @ CRLF @ ''he'',
       ''llo''], EOF)
     = \<lparr>written = [buildResponse (now 0) statusCreated None],
        fsys = \<lparr>files = [''./a'' \<mapsto> ''he'' @ replicate 3 (CHR 0x00)], unwritable = {}\<rparr>,
        outcome = ReturnNil\<rparr>
   \<and> written (handleConn now' defaultOptions
         \<lparr>files = [''./a'' \<mapsto> ''he'' @ replicate 3 (CHR 0x00)], unwritable = {}\<rparr>
         ([''GET /files/a HTTP/1.1'' @ CRLF @ CRLF], EOF))
     = [buildResponse (now' 0) statusOK
          (Some \<lparr>contentType = contentTypeOctetStream,
                 body = ''he'' @ replicate 3 (CHR 0x00)\<rparr>),
        buildResponse (now' 1) statusMethodNotAllowed None]"
  by (simp add: run_handler)

subsection \<open>Reading a line from a stream that holds one\<close>

lemma connRead_empty:
  "0 < k \<Longrightarrow> connRead k segs = ([], rest) \<Longrightarrow> rest = [] \<and> concat segs = []"
  by (induction segs) (auto split: if_splits)

lemma ReadBytes_error:
  "ReadBytes b = (l, Some e, b') \<Longrightarrow>
     LF \<notin> set l \<and> buffered b' = [] \<and> concat (segments b') = []"
proof (induction b arbitrary: l b' rule: ReadBytes.induct)
  case (1 b)
  show ?case
  proof (cases "LF \<in> set (buffered b)")
    case True
    with "1.prems" show ?thesis
      by (simp add: ReadBytes.simps [of b])
  next
    case noLF: False
    show ?thesis
    proof (cases "defaultBufSize \<le> length (buffered b)")
      case True
      obtain l0 e0 b0 where r: "ReadBytes (b\<lparr>buffered := []\<rparr>) = (l0, e0, b0)"
        by (metis prod_cases3)
      with noLF True "1.prems" have "l = buffered b @ l0" and "e0 = Some e" and "b' = b0"
        by (simp_all add: ReadBytes.simps [of b])
      with r "1.IH"(1) [OF noLF True, of l0 b0] noLF show ?thesis
        by simp
    next
      case False
      obtain d rest where c: "connRead (defaultBufSize - length (buffered b)) (segments b) = (d, rest)"
        by (metis surj_pair)
      show ?thesis
      proof (cases d)
        case Nil
        with noLF False c "1.prems" have "l = buffered b"
          and "b' = b\<lparr>buffered := [], segments := rest\<rparr>"
          by (simp_all add: ReadBytes.simps [of b])
        moreover from False c Nil have "rest = []"
          using connRead_empty [of "defaultBufSize - length (buffered b)" "segments b" rest]
          by simp
        ultimately show ?thesis using noLF by simp
      next
        case (Cons x xs)
        with noLF False c "1.prems"
        have r: "ReadBytes (b\<lparr>buffered := buffered b @ x # xs, segments := rest\<rparr>) = (l, Some e, b')"
          by (simp add: ReadBytes.simps [of b])
        from "1.IH"(2) [OF noLF False c [symmetric] _ r] Cons show ?thesis
          by simp
      qed
    qed
  qed
qed

lemma first_LF_unique:
  assumes "LF \<notin> set p" and "LF \<notin> set p'" and "p @ LF # r = p' @ LF # r'"
  shows "p = p' \<and> r = r'"
proof -
  have tw: "LF \<notin> set q \<Longrightarrow> takeWhile (\<lambda>c. c \<noteq> LF) (q @ LF # s) = q" for q s
    by (induction q) auto
  from assms(1) have "takeWhile (\<lambda>c. c \<noteq> LF) (p @ LF # r) = p"
    by (rule tw)
  moreover from assms(2) have "takeWhile (\<lambda>c. c \<noteq> LF) (p' @ LF # r') = p'"
    by (rule tw)
  ultimately have "p = p'"
    using assms(3) by simp
  with assms(3) show ?thesis by simp
qed

lemma isLine_split: "isLine l \<Longrightarrow> \<exists>p. l = p @ [LF] \<and> LF \<notin> set p"
  unfolding isLine_def by (metis append_butlast_last_id)

lemma ReadBytes_reads_line:
  assumes stream: "buffered b @ concat (segments b) = l @ rest"
    and line: "isLine l"
  shows "\<exists>b'. ReadBytes b = (l, None, b') \<and> buffered b' @ concat (segments b') = rest"
proof -
  from isLine_split [OF line] obtain p where l: "l = p @ [LF]" and p: "LF \<notin> set p"
    by blast
  obtain l' e b' where r: "ReadBytes b = (l', e, b')"
    by (metis prod_cases3)
  from ReadBytes_content [OF r] stream l
  have eq: "p @ LF # rest = l' @ buffered b' @ concat (segments b')"
    by simp
  show ?thesis
  proof (cases e)
    case None
    with r ReadBytes_line [of b l' b'] obtain p' where l': "l' = p' @ [LF]" and p': "LF \<notin> set p'"
      by blast
    from eq l' have "p @ LF # rest = p' @ LF # buffered b' @ concat (segments b')"
      by simp
    then have "p = p' \<and> rest = buffered b' @ concat (segments b')"
      by (rule first_LF_unique [OF p p'])
    with r None l l' show ?thesis by simp
  next
    case (Some err)
    with r ReadBytes_error [of b l' err b'] have "LF \<notin> set l'" and "buffered b' = []"
      and "concat (segments b') = []"
      by simp_all
    with eq have "LF \<notin> set (p @ LF # rest)" by simp
    then show ?thesis by simp
  qed
qed

text \<open>
  C9 (the end of the header block), as the code has it. Let the bytes still to come be
  lines of a length other than 2, then a line \<open>t\<close> of length 2 (\<open>\r\n\<close> or any other byte
  followed by a line feed), then \<open>rest\<close>. The loop passes exactly the lines before \<open>t\<close> to
  \<open>parseHeader\<close>, in order, stops at \<open>t\<close> without parsing it, and leaves \<open>rest\<close> unread
  (unless \<open>parseHeader\<close> panics on one of the lines, which ends the handler there).
\<close>

theorem header_loop_stops_at_two_byte_line:
  assumes "buffered b @ concat (segments b) = concat ls @ t @ rest"
    and "\<forall>l \<in> set ls. isLine l \<and> length l \<noteq> 2"
    and "isLine t" and "length t = 2"
  shows "case parseHeaderLines ls req of
           Inl p \<Rightarrow> parseHeaders b req = Inl (Panic p)
         | Inr req' \<Rightarrow>
             (\<exists>b'. parseHeaders b req = Inr (req', b')
                \<and> buffered b' @ concat (segments b') = rest)"
  using assms
proof (induction ls arbitrary: b req)
  case Nil
  then have "buffered b @ concat (segments b) = t @ rest"
    by simp
  from ReadBytes_reads_line [OF this \<open>isLine t\<close>] obtain b'
    where "ReadBytes b = (t, None, b')" and "buffered b' @ concat (segments b') = rest"
    by blast
  with \<open>length t = 2\<close> show ?case
    by (simp add: parseHeaders.simps [of b])
next
  case (Cons l ls)
  then have "buffered b @ concat (segments b) = l @ (concat ls @ t @ rest)"
    and line: "isLine l" and len: "length l \<noteq> 2"
    by simp_all
  from ReadBytes_reads_line [OF this(1) line] obtain b1
    where r: "ReadBytes b = (l, None, b1)"
      and s: "buffered b1 @ concat (segments b1) = concat ls @ t @ rest"
    by blast
  show ?case
  proof (cases "parseHeader l req")
    case (Inl p)
    with r len show ?thesis
      by (simp add: parseHeaders.simps [of b])
  next
    case (Inr req1)
    with r len have "parseHeaders b req = parseHeaders b1 req1"
      by (simp add: parseHeaders.simps [of b])
    moreover from Cons.prems have "\<forall>l \<in> set ls. isLine l \<and> length l \<noteq> 2"
      by simp
    note Cons.IH [OF s this \<open>isLine t\<close> \<open>length t = 2\<close>, of req1]
    ultimately show ?thesis using Inr
      by (cases "parseHeaderLines ls req1") simp_all
  qed
qed

text \<open>The theorem at a stream whose header block ends with the two bytes \<open>A\n\<close>.\<close>

theorem header_loop_witness:
  "\<exists>b'. parseHeaders (NewReader [''Host: h'' @ CRLF @ ''A'' @ [LF] @ ''body''] EOF) zeroRequest
          = Inr (zeroRequest\<lparr>host := ''h''\<rparr>, b')
        \<and> buffered b' @ concat (segments b') = ''body''"
proof -
  let ?b = "NewReader [''Host: h'' @ CRLF @ ''A'' @ [LF] @ ''body''] EOF"
  have h1: "buffered ?b @ concat (segments ?b)
      = concat [''Host: h'' @ CRLF] @ (''A'' @ [LF]) @ ''body''"
    by (simp add: NewReader_def)
  have h2: "\<forall>l \<in> set [''Host: h'' @ CRLF]. isLine l \<and> length l \<noteq> 2"
    by (simp add: isLine_def CRLF_def CR_def LF_def)
  have h3: "isLine (''A'' @ [LF])" and h4: "length (''A'' @ [LF]) = 2"
    by (simp_all add: isLine_def LF_def)
  have p: "parseHeaderLines [''Host: h'' @ CRLF] zeroRequest = Inr (zeroRequest\<lparr>host := ''h''\<rparr>)"
    by (simp add: run_handler)
  from header_loop_stops_at_two_byte_line [OF h1 h2 h3 h4, of zeroRequest] p
  show ?thesis by simp
qed

text \<open>
  C9 as the claim states it fails: the two-byte line \<open>X\n\<close> is not \<open>\r\n\<close>, yet the loop
  stops there; the line is not passed to \<open>parseHeader\<close> and the User-Agent header after it
  stays unread.
\<close>

theorem header_loop_two_byte_line_counterexample:
  "[CHR ''X'', LF] \<noteq> CRLF
   \<and> parseHeaders (NewReader [[CHR ''X'', LF] @ ''User-Agent: foo'' @ CRLF @ CRLF] EOF) zeroRequest
     = Inr (zeroRequest,
            \<lparr>buffered = ''User-Agent: foo'' @ CRLF @ CRLF, segments = [], closing = EOF\<rparr>)"
  by (simp add: run_handler)

text \<open>
  C10 (a header line without a colon). The line \<open>Host\<close> has one part; its key is known,
  so \<open>parseHeader\<close> reads \<open>parts[1]\<close> and panics.
\<close>

theorem header_without_colon_panics:
  "parseHeader (''Host'' @ CRLF) req = Inl IndexOutOfRange"
  by (simp add: run_handler)

end
